theory Spec2Isabelle
  imports Main "HOL-Library.Word" "HOL-Library.Sublist"
begin

section \<open>JavaScript values\<close>

text \<open>
  A JavaScript string is a sequence of UTF-16 code units, and \<open>s.length\<close> counts them.
  The literals of \<^verbatim>\<open>app.js\<close> are written with \<open>js\<close> for their ASCII parts and with
  the code unit itself for the accented letters (U+00E1, U+00E9, U+00ED, U+00F3).
\<close>

type_synonym jsstr = "16 word list"

definition js :: "string \<Rightarrow> jsstr" where
  "js s = map (\<lambda>c. of_nat (of_char c)) s"

text \<open>
  The values a parsed request body can hold. The payload of a number is never inspected
  by the application, so an integer stands for it.
\<close>

datatype jsvalue =
    JUndefined
  | JNull
  | JBool bool
  | JNum int
  | JStr jsstr
  | JArr "jsvalue list"
  | JObj "(jsstr \<times> jsvalue) list"

text \<open>
  \<open>req.body\<close> as the body parsers (\<open>express.urlencoded\<close>, \<open>express.json\<close>) deliver it:
  an object, that is, a mapping from property names to values. Reading a property that
  the object does not have gives \<open>undefined\<close>.
\<close>

type_synonym jsobject = "jsstr \<rightharpoonup> jsvalue"

definition get_prop :: "jsobject \<Rightarrow> jsstr \<Rightarrow> jsvalue" where
  "get_prop obj k = (case obj k of None \<Rightarrow> JUndefined | Some v \<Rightarrow> v)"

text \<open>\<open>Array.prototype.join\<close> on an array of strings.\<close>

fun join :: "jsstr \<Rightarrow> jsstr list \<Rightarrow> jsstr" where
  "join sep [] = []"
| "join sep [x] = x"
| "join sep (x # y # ys) = x @ sep @ join sep (y # ys)"

text \<open>\<open>String.prototype.includes\<close>: the argument occurs as a contiguous part.\<close>

definition str_includes :: "jsstr \<Rightarrow> jsstr \<Rightarrow> bool" where
  "str_includes s part = sublist part s"

section \<open>Regular expressions of the shape used by the schema\<close>

text \<open>
  The pattern \<^verbatim>\<open>/^\(\d{2}\) \d{5}-\d{4}$/\<close> is a sequence of pieces between the
  anchors \<open>^\<close> and \<open>$\<close>; a piece is an atom with a repetition count. An atom is an escaped
  or plain literal character, or the class \<open>\d\<close>, which in JavaScript is \<open>[0-9]\<close> only.
  Without the \<open>m\<close> flag, \<open>^\<close> and \<open>$\<close> match only at the two ends of the input.
\<close>

datatype atom = Lit "16 word" | Digit

datatype piece = Rep atom nat

definition is_digit :: "16 word \<Rightarrow> bool" where
  "is_digit c = (0x30 \<le> c \<and> c \<le> 0x39)"

fun atom_ok :: "atom \<Rightarrow> 16 word \<Rightarrow> bool" where
  "atom_ok (Lit d) c = (c = d)"
| "atom_ok Digit c = is_digit c"

text \<open>Consume exactly \<open>n\<close> code units matching the atom; return what is left of the input.\<close>

fun match_rep :: "atom \<Rightarrow> nat \<Rightarrow> jsstr \<Rightarrow> jsstr option" where
  "match_rep a 0 s = Some s"
| "match_rep a (Suc n) [] = None"
| "match_rep a (Suc n) (c # s) = (if atom_ok a c then match_rep a n s else None)"

fun match_seq :: "piece list \<Rightarrow> jsstr \<Rightarrow> jsstr option" where
  "match_seq [] s = Some s"
| "match_seq (Rep a n # ps) s =
     (case match_rep a n s of None \<Rightarrow> None | Some rest \<Rightarrow> match_seq ps rest)"

text \<open>\<open>RegExp.prototype.test\<close> for the pattern \<open>^ps$\<close>: the whole input is consumed.\<close>

definition regex_test :: "piece list \<Rightarrow> jsstr \<Rightarrow> bool" where
  "regex_test ps s = (match_seq ps s = Some [])"

section \<open>The validation library\<close>

text \<open>
  Zod is an external library. Two things it brings are taken as parameters: the test
  behind \<open>.email()\<close>, and the message it gives to a type issue when the schema declares
  none (its default wording, which depends on the value received: \<open>undefined\<close> is the
  missing-field case).
\<close>

record zod_lib =
  isEmail :: "jsstr \<Rightarrow> bool"
  defaultError :: "jsvalue \<Rightarrow> jsstr"

text \<open>
  A string schema \<open>z.string(params)\<close> followed by its checks, each with its message.
  \<open>z.string({message: m})\<close> carries \<open>Some m\<close>, \<open>z.string()\<close> carries \<open>None\<close>.
\<close>

datatype zcheck =
    Min nat jsstr
  | Email jsstr
  | Regex "piece list" jsstr

datatype zstring = ZString "jsstr option" "zcheck list"

fun check_issue :: "zod_lib \<Rightarrow> jsstr \<Rightarrow> zcheck \<Rightarrow> jsstr list" where
  "check_issue L s (Min n m) = (if length s < n then [m] else [])"
| "check_issue L s (Email m) = (if isEmail L s then [] else [m])"
| "check_issue L s (Regex r m) = (if regex_test r s then [] else [m])"

text \<open>
  Parsing a value with a string schema gives the messages of its issues. A value that is
  not a string gives one type issue and the checks do not run; on a string every check
  runs, in the order of declaration.
\<close>

fun zstring_parse :: "zod_lib \<Rightarrow> zstring \<Rightarrow> jsvalue \<Rightarrow> jsstr list" where
  "zstring_parse L (ZString tm cs) (JStr s) = concat (map (check_issue L s) cs)"
| "zstring_parse L (ZString tm cs) v =
     [case tm of Some m \<Rightarrow> m | None \<Rightarrow> defaultError L v]"

text \<open>
  \<open>z.object(shape)\<close>: the fields are parsed in the order of the shape, each from the
  property of its name; properties outside the shape raise no issue.
\<close>

definition zobject_issues :: "zod_lib \<Rightarrow> (jsstr \<times> zstring) list \<Rightarrow> jsobject \<Rightarrow> jsstr list" where
  "zobject_issues L shape obj =
     concat (map (\<lambda>(k, sch). zstring_parse L sch (get_prop obj k)) shape)"

datatype parse_result = Success | Failure (issues: "jsstr list")

definition safeParse :: "zod_lib \<Rightarrow> (jsstr \<times> zstring) list \<Rightarrow> jsobject \<Rightarrow> parse_result" where
  "safeParse L shape obj =
     (let msgs = zobject_issues L shape obj in if msgs = [] then Success else Failure msgs)"

section \<open>The schema of a contact\<close>

definition msg_nome_obrigatorio :: jsstr where
  "msg_nome_obrigatorio = js ''Campo nome '' @ [0xE9] @ js '' obrigat'' @ [0xF3] @ js ''rio''"

definition msg_nome_min :: jsstr where
  "msg_nome_min = js ''O nome deve ter no m'' @ [0xED] @ js ''nimo 03 caracteres.''"

definition msg_email_obrigatorio :: jsstr where
  "msg_email_obrigatorio =
     js ''Campo e-mail '' @ [0xE9] @ js '' obrigat'' @ [0xF3] @ js ''rio.''"

definition msg_email_valido :: jsstr where
  "msg_email_valido = js ''Deve ser um e-mail v'' @ [0xE1] @ js ''lido.''"

definition msg_telefone_valido :: jsstr where
  "msg_telefone_valido = js ''Deve enviar um telefone v'' @ [0xE1] @ js ''lido''"

definition telefone_regex :: "piece list" where
  "telefone_regex =
     [Rep (Lit 0x28) 1, Rep Digit 2, Rep (Lit 0x29) 1, Rep (Lit 0x20) 1,
      Rep Digit 5, Rep (Lit 0x2D) 1, Rep Digit 4]"

definition nome_schema :: zstring where
  "nome_schema = ZString (Some msg_nome_obrigatorio) [Min 3 msg_nome_min]"

definition email_schema :: zstring where
  "email_schema = ZString (Some msg_email_obrigatorio) [Email msg_email_valido]"

definition telefone_schema :: zstring where
  "telefone_schema = ZString None [Regex telefone_regex msg_telefone_valido]"

definition contatoSchema :: "(jsstr \<times> zstring) list" where
  "contatoSchema =
     [(js ''nome'', nome_schema), (js ''email'', email_schema),
      (js ''telefone'', telefone_schema)]"

text \<open>
  The shape of a telephone number in the words of the specification: an opening
  parenthesis, two digits, a closing parenthesis, a space, five digits, a hyphen, four
  digits, and nothing before or after.
\<close>

definition telefone_shape :: "jsstr \<Rightarrow> bool" where
  "telefone_shape s =
     (length s = 15 \<and>
      take 1 s = js ''('' \<and>
      list_all is_digit (take 2 (drop 1 s)) \<and>
      take 2 (drop 3 s) = js '') '' \<and>
      list_all is_digit (take 5 (drop 5 s)) \<and>
      take 1 (drop 10 s) = js ''-'' \<and>
      list_all is_digit (drop 11 s))"

section \<open>The world of the application\<close>

datatype js_error = Error jsstr

text \<open>The object handed to \<open>Contato.create\<close>: three properties, read from the body.\<close>

record contato =
  nome :: jsvalue
  telefone :: jsvalue
  email :: jsvalue

text \<open>What \<open>await\<close> finds: the value of a fulfilled promise, or the error of a rejected one.\<close>

datatype 'a settled = Fulfilled 'a | Rejected js_error

text \<open>
  The state outside the process: the table of contacts, the file \<open>access.log\<close> beside
  the program, what \<open>console.error\<close> has printed (a label and the error value), and
  the data of every call of \<open>fs.appendFile\<close> made so far, whether or not the append has
  been carried out.
\<close>

record world =
  contatos :: "contato list"
  access_log :: jsstr
  console_error :: "(jsstr \<times> js_error) list"
  appendFile_calls :: "jsstr list"

text \<open>
  What one request meets besides its own data: the reading of the clock as
  \<open>new Date().toISOString()\<close> returns it, the error that \<open>fs.appendFile\<close> passes to its
  callback, the error with which the persistence call of the request is rejected
  (\<open>None\<close> where the operation works), and the order in which the platform completes
  the two asynchronous operations of the request: \<open>append_first\<close> holds when the append
  to the log is carried out before the persistence call settles.
\<close>

record env =
  now :: jsstr
  appendFile_err :: "js_error option"
  db_err :: "js_error option"
  append_first :: bool

text \<open>
  Modelled from the spec: the model \<open>Contato\<close> of \<^verbatim>\<open>./models\<close>, which is not among the
  sources. Its store is the collection of the contact records persisted so far, with
  no uniqueness constraint; \<open>create\<close> persists one new record with the fields given,
  \<open>findAll\<close> returns all records without filtering. A call that the persistence layer
  fails is rejected with its error and leaves the store as it was.
\<close>

definition Contato_create ::
    "js_error option \<Rightarrow> contato \<Rightarrow> contato list \<Rightarrow> (contato list) settled" where
  "Contato_create fault c tbl =
     (case fault of None \<Rightarrow> Fulfilled (tbl @ [c]) | Some e \<Rightarrow> Rejected e)"

definition Contato_findAll ::
    "js_error option \<Rightarrow> contato list \<Rightarrow> (contato list) settled" where
  "Contato_findAll fault tbl =
     (case fault of None \<Rightarrow> Fulfilled tbl | Some e \<Rightarrow> Rejected e)"

section \<open>The access logger\<close>






section \<open>The route handlers\<close>

text \<open>
  \<open>res.send(text)\<close> with the status set before it (200 when none was set), or
  \<open>res.render(view, locals)\<close>.
\<close>

datatype reply = Send nat jsstr | Render jsstr "(jsstr \<times> contato list) list"

text \<open>
  How a handler ends: with a reply, or with an error that leaves the handler uncaught.
  \<open>NoRoute\<close> is a request that no route of the application matches.
\<close>

datatype outcome = Replied reply | Unhandled js_error | NoRoute


definition post_root :: "zod_lib \<Rightarrow> env \<Rightarrow> jsobject \<Rightarrow> world \<Rightarrow> outcome \<times> world" where
  "post_root L E contato w =
     (case safeParse L contatoSchema contato of
        Failure erros \<Rightarrow> (Replied (Send 400 (join (js ''; '') erros)), w)
      | Success \<Rightarrow>
          (case Contato_create (db_err E)
                  \<lparr>nome = get_prop contato (js ''nome''),
                   telefone = get_prop contato (js ''telefone''),
                   email = get_prop contato (js ''email'')\<rparr> (contatos w) of
             Rejected e \<Rightarrow> (Unhandled e, w)
           | Fulfilled tbl \<Rightarrow>
               (Replied (Send 200 (js ''Contato salvo com sucesso'')), w\<lparr>contatos := tbl\<rparr>)))"

definition get_contatos :: "env \<Rightarrow> world \<Rightarrow> outcome \<times> world" where
  "get_contatos E w =
     (case Contato_findAll (db_err E) (contatos w) of
        Fulfilled cs \<Rightarrow> (Replied (Render (js ''contatos'') [(js ''contatos'', cs)]), w)
      | Rejected error \<Rightarrow>
          (Replied (Send 500 (js ''Erro ao buscar contatos.'')),
           w\<lparr>console_error :=
                console_error w @ [(js ''Erro ao buscar contatos:'', error)]\<rparr>))"






section \<open>The messages the specification expects\<close>

text \<open>
  The rules of the validation schema in the words of the specification, field by field:
  a name is required and is text of at least three code units, with one message for the
  missing field and another for the short one; an e-mail is required and is text in the
  syntax of an e-mail address; a telephone is text of the fixed shape, and has no
  message of its own for the missing field.
\<close>

definition nome_messages :: "jsvalue \<Rightarrow> jsstr list" where
  "nome_messages v =
     (case v of
        JStr s \<Rightarrow> if length s < 3 then [msg_nome_min] else []
      | _ \<Rightarrow> [msg_nome_obrigatorio])"

definition email_messages :: "zod_lib \<Rightarrow> jsvalue \<Rightarrow> jsstr list" where
  "email_messages L v =
     (case v of
        JStr s \<Rightarrow> if isEmail L s then [] else [msg_email_valido]
      | _ \<Rightarrow> [msg_email_obrigatorio])"

definition telefone_messages :: "zod_lib \<Rightarrow> jsvalue \<Rightarrow> jsstr list" where
  "telefone_messages L v =
     (case v of
        JStr s \<Rightarrow> if telefone_shape s then [] else [msg_telefone_valido]
      | _ \<Rightarrow> [defaultError L v])"

text \<open>All messages of a submission, in the order name, e-mail, telephone.\<close>

definition all_messages :: "zod_lib \<Rightarrow> jsobject \<Rightarrow> jsstr list" where
  "all_messages L b =
     nome_messages (get_prop b (js ''nome'')) @
     email_messages L (get_prop b (js ''email'')) @
     telefone_messages L (get_prop b (js ''telefone''))"

section \<open>Sample data\<close>

text \<open>
  A stand-in for the library in the examples: an address is accepted when it has an
  \<open>@\<close>, and the default message of a type issue is \<open>Required\<close>.
\<close>

definition sample_lib :: zod_lib where
  "sample_lib = \<lparr>isEmail = (\<lambda>s. 0x40 \<in> set s), defaultError = (\<lambda>v. js ''Required'')\<rparr>"

definition ana :: jsobject where
  "ana = [js ''nome'' \<mapsto> JStr (js ''Ana Silva''),
          js ''email'' \<mapsto> JStr (js ''ana@example.com''),
          js ''telefone'' \<mapsto> JStr (js ''(11) 91234-5678'')]"

definition empty_world :: world where
  "empty_world =
     \<lparr>contatos = [], access_log = [], console_error = [], appendFile_calls = []\<rparr>"

definition calm :: env where
  "calm =
     \<lparr>now = js ''2024-05-01T12:00:00.000Z'', appendFile_err = None, db_err = None,
      append_first = False\<rparr>"

definition db_down :: env where
  "db_down = calm\<lparr>db_err := Some (Error (js ''connection refused''))\<rparr>"

definition bad_telefone :: jsobject where
  "bad_telefone = ana(js ''telefone'' \<mapsto> JStr (js ''11 91234-5678''))"

definition all_bad :: jsobject where
  "all_bad = [js ''nome'' \<mapsto> JStr (js ''Al''), js ''email'' \<mapsto> JStr (js ''al.example.com''),
              js ''telefone'' \<mapsto> JStr (js ''11 91234-5678'')]"

definition no_telefone :: jsobject where
  "no_telefone = [js ''nome'' \<mapsto> JStr (js ''Ana Silva''),
                  js ''email'' \<mapsto> JStr (js ''ana@example.com'')]"

definition short_nome :: jsobject where
  "short_nome = ana(js ''nome'' \<mapsto> JStr (js ''Al''))"

definition with_extra :: jsobject where
  "with_extra = ana(js ''admin'' \<mapsto> JBool True)"

definition one_row :: world where
  "one_row = empty_world\<lparr>contatos :=
     [\<lparr>nome = JStr (js ''Ana Silva''), telefone = JStr (js ''(11) 91234-5678''),
       email = JStr (js ''ana@example.com'')\<rparr>]\<rparr>"





section \<open>Facts about strings, the pattern and the schema\<close>

lemma of_char_lt: "(of_char c :: nat) < 256"
proof -
  have "(of_char c :: nat) mod 256 < 256" by simp
  then show ?thesis by (simp only: of_char_mod_256)
qed

lemma code_unit_inj: "(of_nat (of_char c) :: 16 word) = of_nat (of_char d) \<longleftrightarrow> c = d"
proof -
  have small: "(of_char e :: nat) < 2 ^ LENGTH(16)" for e
  proof -
    have "(of_char e :: nat) < 256" by (rule of_char_lt)
    also have "(256 :: nat) \<le> 2 ^ LENGTH(16)" by simp
    finally show ?thesis .
  qed
  from small [of c] small [of d] have "(of_nat (of_char c) :: 16 word) = of_nat (of_char d) \<longleftrightarrow> (of_char c :: nat) = of_char d"
    by (simp add: word_of_nat_eq_iff take_bit_nat_eq_self)
  then show ?thesis by simp
qed

lemma js_eq_iff: "js a = js b \<longleftrightarrow> a = b"
proof (induction a arbitrary: b)
  case Nil then show ?case by (auto simp: js_def)
next
  case (Cons x xs)
  show ?case
  proof (cases b)
    case Nil then show ?thesis by (simp add: js_def)
  next
    case (Cons y ys)
    have "js xs = js ys \<longleftrightarrow> xs = ys" by (rule Cons.IH)
    then show ?thesis using Cons by (simp add: js_def code_unit_inj)
  qed
qed

lemma includes_join: "m \<in> set ms \<Longrightarrow> str_includes (join sep ms) m"
proof (induction sep ms rule: join.induct)
  case (1 sep) then show ?case by simp
next
  case (2 sep x) then show ?case by (simp add: str_includes_def)
next
  case (3 sep x y ys)
  show ?case
  proof (cases "m = x")
    case True then show ?thesis by (simp add: str_includes_def)
  next
    case False
    with 3 have "str_includes (join sep (y # ys)) m" by simp
    then show ?thesis
      by (simp add: str_includes_def sublist_append)
  qed
qed

lemma issues_contatoSchema:
  "zobject_issues L contatoSchema obj =
     zstring_parse L nome_schema (get_prop obj (js ''nome'')) @
     zstring_parse L email_schema (get_prop obj (js ''email'')) @
     zstring_parse L telefone_schema (get_prop obj (js ''telefone''))"
  by (simp add: zobject_issues_def contatoSchema_def)

lemma match_rep_Some:
  "match_rep a n s = Some r \<longleftrightarrow> (n \<le> length s \<and> list_all (atom_ok a) (take n s) \<and> r = drop n s)"
  by (induction a n s rule: match_rep.induct) auto

lemma match_seq_Cons:
  "match_seq (Rep a n # ps) s = Some r \<longleftrightarrow>
     (n \<le> length s \<and> list_all (atom_ok a) (take n s) \<and> match_seq ps (drop n s) = Some r)"
proof (cases "match_rep a n s")
  case None
  then have "\<not> (n \<le> length s \<and> list_all (atom_ok a) (take n s))"
    using match_rep_Some [of a n s "drop n s"] by simp
  with None show ?thesis by auto
next
  case (Some t)
  with match_rep_Some [of a n s t] show ?thesis by auto
qed

lemma regex_telefone_length: "regex_test telefone_regex s \<Longrightarrow> length s = 15"
  by (auto simp: regex_test_def telefone_regex_def match_seq_Cons simp del: match_seq.simps(2))

lemma length_15:
  assumes "length s = 15"
  obtains c0 c1 c2 c3 c4 c5 c6 c7 c8 c9 c10 c11 c12 c13 c14
  where "s = [c0, c1, c2, c3, c4, c5, c6, c7, c8, c9, c10, c11, c12, c13, c14]"
  using assms by (auto simp: numeral_eq_Suc length_Suc_conv)

lemma js_paren: "js ''('' = [0x28]" "js '') '' = [0x29, 0x20]" "js ''-'' = [0x2D]"
  by (simp_all add: js_def)

lemma regex_telefone_15:
  assumes "length s = 15"
  shows "regex_test telefone_regex s = telefone_shape s"
proof -
  from assms obtain c0 c1 c2 c3 c4 c5 c6 c7 c8 c9 c10 c11 c12 c13 c14
    where s: "s = [c0, c1, c2, c3, c4, c5, c6, c7, c8, c9, c10, c11, c12, c13, c14]"
    by (rule length_15)
  show ?thesis
    unfolding s regex_test_def telefone_regex_def telefone_shape_def js_paren
    by (simp add: numeral_eq_Suc)
qed

lemma regex_telefone: "regex_test telefone_regex s = telefone_shape s"
proof (cases "length s = 15")
  case True then show ?thesis by (rule regex_telefone_15)
next
  case False
  then have "\<not> regex_test telefone_regex s" using regex_telefone_length by blast
  moreover from False have "\<not> telefone_shape s" by (simp add: telefone_shape_def)
  ultimately show ?thesis by simp
qed

lemma nome_parse: "zstring_parse L nome_schema v = nome_messages v"
  by (cases v) (simp_all add: nome_schema_def nome_messages_def)

lemma email_parse: "zstring_parse L email_schema v = email_messages L v"
  by (cases v) (simp_all add: email_schema_def email_messages_def)

lemma telefone_parse: "zstring_parse L telefone_schema v = telefone_messages L v"
  by (cases v) (simp_all add: telefone_schema_def telefone_messages_def regex_telefone)

lemma issues_messages: "zobject_issues L contatoSchema b = all_messages L b"
  by (simp add: issues_contatoSchema nome_parse email_parse telefone_parse all_messages_def)

lemma safeParse_Success: "safeParse L contatoSchema b = Success \<longleftrightarrow> all_messages L b = []"
  by (simp add: safeParse_def issues_messages Let_def)

lemma post_root_Failure:
  assumes "all_messages L b \<noteq> []"
  shows "post_root L E b w = (Replied (Send 400 (join (js ''; '') (all_messages L b))), w)"
  using assms by (simp add: post_root_def safeParse_def issues_messages Let_def)

lemma post_root_Success:
  assumes "all_messages L b = []"
  shows "post_root L E b w =
     (case db_err E of
        None \<Rightarrow>
          (Replied (Send 200 (js ''Contato salvo com sucesso'')),
           w\<lparr>contatos := contatos w @
              [\<lparr>nome = get_prop b (js ''nome''), telefone = get_prop b (js ''telefone''),
                email = get_prop b (js ''email'')\<rparr>]\<rparr>)
      | Some e \<Rightarrow> (Unhandled e, w))"
  using assms
  by (simp add: post_root_def safeParse_def issues_messages Let_def Contato_create_def
      split: option.splits)

lemma ana_props:
  "get_prop ana (js ''nome'') = JStr (js ''Ana Silva'')"
  "get_prop ana (js ''email'') = JStr (js ''ana@example.com'')"
  "get_prop ana (js ''telefone'') = JStr (js ''(11) 91234-5678'')"
  by (simp_all add: ana_def get_prop_def js_eq_iff)

lemma ana_valid:
  "3 \<le> length (js ''Ana Silva'')"
  "isEmail sample_lib (js ''ana@example.com'')"
  "telefone_shape (js ''(11) 91234-5678'')"
  by (simp_all add: js_def sample_lib_def telefone_shape_def is_digit_def)

lemma ana_messages: "all_messages sample_lib ana = []"
  using ana_valid
  by (simp add: all_messages_def ana_props nome_messages_def email_messages_def
      telefone_messages_def)

section \<open>The claims of the specification\<close>

subsection \<open>C1: a valid submission\<close>

text \<open>
  C1 as stated: every submission whose three fields satisfy the schema is answered with
  status 200 and the success text, and one new record exists afterwards. It fails where
  the persistence call is rejected: the body of Ana Silva is valid, and with the store
  refusing the connection the handler sends nothing and no record is added.
\<close>

theorem post_root_valid_counterexample:
  "get_prop ana (js ''nome'') = JStr (js ''Ana Silva'') \<and> 3 \<le> length (js ''Ana Silva'') \<and>
   get_prop ana (js ''email'') = JStr (js ''ana@example.com'') \<and>
   isEmail sample_lib (js ''ana@example.com'') \<and>
   get_prop ana (js ''telefone'') = JStr (js ''(11) 91234-5678'') \<and>
   telefone_shape (js ''(11) 91234-5678'') \<and>
   safeParse sample_lib contatoSchema ana = Success \<and>
   post_root sample_lib db_down ana empty_world =
     (Unhandled (Error (js ''connection refused'')), empty_world) \<and>
   fst (post_root sample_lib db_down ana empty_world) \<noteq>
     Replied (Send 200 (js ''Contato salvo com sucesso'')) \<and>
   contatos (snd (post_root sample_lib db_down ana empty_world)) = contatos empty_world"
  using ana_valid
  by (simp add: ana_props safeParse_Success ana_messages post_root_Success db_down_def calm_def)

text \<open>
  C1, amended: for every submission body whose \<open>nome\<close> is a string of at least three code
  units, whose \<open>email\<close> is a string the e-mail test accepts and whose \<open>telefone\<close> is a
  string of the fixed shape, validation succeeds; and if the persistence call succeeds,
  the handler of \<open>POST /\<close> answers with status 200 and the text
  \<open>Contato salvo com sucesso\<close>, and the store afterwards is the store before with
  exactly one new record holding those three values, the rest of the world unchanged.
\<close>

theorem post_root_valid:
  assumes "get_prop b (js ''nome'') = JStr n" and "3 \<le> length n"
    and "get_prop b (js ''email'') = JStr m" and "isEmail L m"
    and "get_prop b (js ''telefone'') = JStr t" and "telefone_shape t"
    and "db_err E = None"
  shows "safeParse L contatoSchema b = Success \<and>
         post_root L E b w =
           (Replied (Send 200 (js ''Contato salvo com sucesso'')),
            w\<lparr>contatos := contatos w @ [\<lparr>nome = JStr n, telefone = JStr t, email = JStr m\<rparr>]\<rparr>)"
proof -
  have ok: "all_messages L b = []"
    using assms
    by (simp add: all_messages_def nome_messages_def email_messages_def telefone_messages_def)
  then have "safeParse L contatoSchema b = Success"
    by (simp add: safeParse_Success)
  moreover from ok assms have "post_root L E b w =
           (Replied (Send 200 (js ''Contato salvo com sucesso'')),
            w\<lparr>contatos := contatos w @ [\<lparr>nome = JStr n, telefone = JStr t, email = JStr m\<rparr>]\<rparr>)"
    by (simp add: post_root_Success)
  ultimately show ?thesis by simp
qed

text \<open>The submission of Ana Silva on an empty store, the store working.\<close>

theorem post_root_valid_witness:
  "db_err calm = None \<and>
   post_root sample_lib calm ana empty_world =
     (Replied (Send 200 (js ''Contato salvo com sucesso'')),
      empty_world\<lparr>contatos :=
        [\<lparr>nome = JStr (js ''Ana Silva''), telefone = JStr (js ''(11) 91234-5678''),
          email = JStr (js ''ana@example.com'')\<rparr>]\<rparr>)"
proof -
  have h: "db_err calm = None" by (simp add: calm_def)
  from post_root_valid [OF ana_props(1) ana_valid(1) ana_props(2) ana_valid(2)
      ana_props(3) ana_valid(3) h, of empty_world]
  show ?thesis using h by (simp add: empty_world_def)
qed

subsection \<open>C2: the telephone pattern\<close>

lemma includes_message:
  assumes "m \<in> set (all_messages L b)"
  shows "\<exists>text. post_root L E b w = (Replied (Send 400 text), w) \<and> str_includes text m"
proof -
  from assms have "all_messages L b \<noteq> []" by auto
  then have "post_root L E b w = (Replied (Send 400 (join (js ''; '') (all_messages L b))), w)"
    by (rule post_root_Failure)
  moreover from assms have "str_includes (join (js ''; '') (all_messages L b)) m"
    by (rule includes_join)
  ultimately show ?thesis by blast
qed

text \<open>
  C2: for every string \<open>t\<close>, the telephone rule of the schema raises no issue exactly when
  \<open>t\<close> is an opening parenthesis, two digits, a closing parenthesis, a space, five
  digits, a hyphen and four digits with nothing before or after (the regular expression
  of the source matches exactly these strings); and a submission whose \<open>telefone\<close> is a
  string not of that shape is answered with status 400 and a body that includes the
  telephone message of the schema (\<open>msg_telefone_valido\<close>), the store unchanged.
\<close>

theorem telefone_rule:
  "(zstring_parse L telefone_schema (JStr t) = [] \<longleftrightarrow> telefone_shape t) \<and>
   (regex_test telefone_regex t \<longleftrightarrow> telefone_shape t) \<and>
   (get_prop b (js ''telefone'') = JStr t \<and> \<not> telefone_shape t \<longrightarrow>
      (\<exists>text. post_root L E b w = (Replied (Send 400 text), w) \<and>
              str_includes text msg_telefone_valido))"
proof (intro conjI impI)
  show "zstring_parse L telefone_schema (JStr t) = [] \<longleftrightarrow> telefone_shape t"
    by (simp add: telefone_parse telefone_messages_def)
  show "regex_test telefone_regex t \<longleftrightarrow> telefone_shape t"
    by (rule regex_telefone)
  assume "get_prop b (js ''telefone'') = JStr t \<and> \<not> telefone_shape t"
  then have "msg_telefone_valido \<in> set (all_messages L b)"
    by (simp add: all_messages_def telefone_messages_def)
  then show "\<exists>text. post_root L E b w = (Replied (Send 400 text), w) \<and>
              str_includes text msg_telefone_valido"
    by (rule includes_message)
qed

lemma bad_telefone_props:
  "get_prop bad_telefone (js ''nome'') = JStr (js ''Ana Silva'')"
  "get_prop bad_telefone (js ''email'') = JStr (js ''ana@example.com'')"
  "get_prop bad_telefone (js ''telefone'') = JStr (js ''11 91234-5678'')"
  by (simp_all add: bad_telefone_def ana_def get_prop_def js_eq_iff)

lemma bad_shape: "\<not> telefone_shape (js ''11 91234-5678'')"
  by (simp add: telefone_shape_def js_def)

text \<open>A number of the shape is accepted; the same number without parentheses is refused.\<close>

theorem telefone_rule_witness:
  "telefone_shape (js ''(11) 91234-5678'') \<and>
   zstring_parse sample_lib telefone_schema (JStr (js ''(11) 91234-5678'')) = [] \<and>
   get_prop bad_telefone (js ''telefone'') = JStr (js ''11 91234-5678'') \<and>
   \<not> telefone_shape (js ''11 91234-5678'') \<and>
   zstring_parse sample_lib telefone_schema (JStr (js ''11 91234-5678'')) \<noteq> [] \<and>
   (\<exists>text. post_root sample_lib calm bad_telefone empty_world =
             (Replied (Send 400 text), empty_world) \<and>
           str_includes text msg_telefone_valido)"
  using telefone_rule [of sample_lib "js ''(11) 91234-5678''" ana calm empty_world]
    telefone_rule [of sample_lib "js ''11 91234-5678''" bad_telefone calm empty_world]
    ana_valid(3) bad_shape bad_telefone_props(3)
  by simp

subsection \<open>C3: several failures in one submission\<close>

text \<open>
  C3: for every submission body that violates more than one rule, the issues of the
  schema are the messages of the name, then those of the e-mail, then those of the
  telephone, and the handler of \<open>POST /\<close> gives one answer, with status 400 and as body
  these messages joined by \<open>"; "\<close> in that order.
\<close>

theorem messages_joined_in_order:
  assumes "1 < length (nome_messages (get_prop b (js ''nome'')) @
                       email_messages L (get_prop b (js ''email'')) @
                       telefone_messages L (get_prop b (js ''telefone'')))"
  shows "zobject_issues L contatoSchema b =
           nome_messages (get_prop b (js ''nome'')) @
           email_messages L (get_prop b (js ''email'')) @
           telefone_messages L (get_prop b (js ''telefone'')) \<and>
         post_root L E b w =
           (Replied (Send 400 (join (js ''; '')
              (nome_messages (get_prop b (js ''nome'')) @
               email_messages L (get_prop b (js ''email'')) @
               telefone_messages L (get_prop b (js ''telefone''))))), w)"
proof -
  from assms have "all_messages L b \<noteq> []"
    by (auto simp: all_messages_def)
  then have "post_root L E b w = (Replied (Send 400 (join (js ''; '') (all_messages L b))), w)"
    by (rule post_root_Failure)
  then show ?thesis
    by (simp add: issues_messages all_messages_def)
qed

lemma all_bad_props:
  "get_prop all_bad (js ''nome'') = JStr (js ''Al'')"
  "get_prop all_bad (js ''email'') = JStr (js ''al.example.com'')"
  "get_prop all_bad (js ''telefone'') = JStr (js ''11 91234-5678'')"
  by (simp_all add: all_bad_def get_prop_def js_eq_iff)

lemma all_bad_messages:
  "nome_messages (JStr (js ''Al'')) = [msg_nome_min]"
  "email_messages sample_lib (JStr (js ''al.example.com'')) = [msg_email_valido]"
  "telefone_messages sample_lib (JStr (js ''11 91234-5678'')) = [msg_telefone_valido]"
  using bad_shape
  by (simp_all add: nome_messages_def email_messages_def telefone_messages_def sample_lib_def
      js_def)

text \<open>A short name, an address without \<open>@\<close> and a telephone without parentheses.\<close>

theorem messages_joined_in_order_witness:
  "1 < length (nome_messages (get_prop all_bad (js ''nome'')) @
               email_messages sample_lib (get_prop all_bad (js ''email'')) @
               telefone_messages sample_lib (get_prop all_bad (js ''telefone''))) \<and>
   post_root sample_lib calm all_bad empty_world =
     (Replied (Send 400
        (msg_nome_min @ js ''; '' @ msg_email_valido @ js ''; '' @ msg_telefone_valido)),
      empty_world)"
proof -
  have h: "1 < length (nome_messages (get_prop all_bad (js ''nome'')) @
               email_messages sample_lib (get_prop all_bad (js ''email'')) @
               telefone_messages sample_lib (get_prop all_bad (js ''telefone'')))"
    by (simp add: all_bad_props all_bad_messages)
  from messages_joined_in_order [OF h, of calm empty_world] h
  show ?thesis by (simp add: all_bad_props all_bad_messages)
qed

subsection \<open>C4: a submission that fails validation\<close>

lemma field_fails_iff:
  "(\<exists>(k, sch) \<in> set contatoSchema. zstring_parse L sch (get_prop b k) \<noteq> []) \<longleftrightarrow>
   zobject_issues L contatoSchema b \<noteq> []"
  unfolding zobject_issues_def by (auto simp: case_prod_beta)

text \<open>
  C4: validation fails exactly when some field of the schema raises an issue, so one
  violated rule is enough; and for every submission body that fails validation the
  handler of \<open>POST /\<close> answers with status 400 and leaves the world as it was: the
  contacts persisted after the request are those persisted before it.
\<close>

theorem post_root_invalid:
  "((\<exists>(k, sch) \<in> set contatoSchema. zstring_parse L sch (get_prop b k) \<noteq> []) \<longleftrightarrow>
      safeParse L contatoSchema b \<noteq> Success) \<and>
   (safeParse L contatoSchema b \<noteq> Success \<longrightarrow>
      (\<exists>text. post_root L E b w = (Replied (Send 400 text), w)) \<and>
      contatos (snd (post_root L E b w)) = contatos w)"
proof (intro conjI impI)
  show "(\<exists>(k, sch) \<in> set contatoSchema. zstring_parse L sch (get_prop b k) \<noteq> []) \<longleftrightarrow>
      safeParse L contatoSchema b \<noteq> Success"
    by (simp only: field_fails_iff) (simp add: safeParse_def Let_def)
next
  assume "safeParse L contatoSchema b \<noteq> Success"
  then have "all_messages L b \<noteq> []" by (simp add: safeParse_Success)
  then have r: "post_root L E b w =
      (Replied (Send 400 (join (js ''; '') (all_messages L b))), w)"
    by (rule post_root_Failure)
  then show "\<exists>text. post_root L E b w = (Replied (Send 400 text), w)" by blast
  from r show "contatos (snd (post_root L E b w)) = contatos w" by simp
qed

lemma short_nome_props:
  "get_prop short_nome (js ''nome'') = JStr (js ''Al'')"
  "get_prop short_nome (js ''email'') = JStr (js ''ana@example.com'')"
  "get_prop short_nome (js ''telefone'') = JStr (js ''(11) 91234-5678'')"
  by (simp_all add: short_nome_def ana_def get_prop_def js_eq_iff)

lemma length_Al: "length (js ''Al'') < 3"
  by (simp add: js_def)

lemma short_nome_messages: "all_messages sample_lib short_nome = [msg_nome_min]"
  using ana_valid length_Al
  by (simp add: all_messages_def short_nome_props nome_messages_def email_messages_def
      telefone_messages_def)

text \<open>A name of two letters, the other fields valid, on a store that holds one record.\<close>

theorem post_root_invalid_witness:
  "safeParse sample_lib contatoSchema short_nome \<noteq> Success \<and>
   post_root sample_lib calm short_nome one_row = (Replied (Send 400 msg_nome_min), one_row) \<and>
   contatos (snd (post_root sample_lib calm short_nome one_row)) = contatos one_row"
proof -
  have h: "safeParse sample_lib contatoSchema short_nome \<noteq> Success"
    by (simp add: safeParse_Success short_nome_messages)
  have "post_root sample_lib calm short_nome one_row =
      (Replied (Send 400 msg_nome_min), one_row)"
    by (simp add: post_root_Failure short_nome_messages)
  with post_root_invalid [of sample_lib short_nome calm one_row] h
  show ?thesis by simp
qed

subsection \<open>C5: the minimum length of the name\<close>

text \<open>
  C5: for every submission body whose \<open>nome\<close> is a string, if the string has fewer than
  three code units the handler of \<open>POST /\<close> answers with status 400 and a body that
  includes the minimum-length message of the schema (\<open>msg_nome_min\<close>); if it has three or more,
  the length check raises no issue and neither does the rule of the name as a whole.
\<close>

theorem nome_min_length:
  assumes "get_prop b (js ''nome'') = JStr s"
  shows "(length s < 3 \<longrightarrow>
            (\<exists>text. post_root L E b w = (Replied (Send 400 text), w) \<and>
                    str_includes text msg_nome_min)) \<and>
         (3 \<le> length s \<longrightarrow>
            check_issue L s (Min 3 msg_nome_min) = [] \<and>
            zstring_parse L nome_schema (get_prop b (js ''nome'')) = [])"
proof (intro conjI impI)
  assume "length s < 3"
  with assms have "msg_nome_min \<in> set (all_messages L b)"
    by (simp add: all_messages_def nome_messages_def)
  then show "\<exists>text. post_root L E b w = (Replied (Send 400 text), w) \<and>
                    str_includes text msg_nome_min"
    by (rule includes_message)
next
  assume "3 \<le> length s"
  then show "check_issue L s (Min 3 msg_nome_min) = []" by simp
next
  assume "3 \<le> length s"
  with assms show "zstring_parse L nome_schema (get_prop b (js ''nome'')) = []"
    by (simp add: nome_parse nome_messages_def)
qed

text \<open>The name \<open>Al\<close> is refused; the name \<open>Ana Silva\<close> passes the rule.\<close>

theorem nome_min_length_witness:
  "get_prop short_nome (js ''nome'') = JStr (js ''Al'') \<and> length (js ''Al'') < 3 \<and>
   (\<exists>text. post_root sample_lib calm short_nome empty_world =
             (Replied (Send 400 text), empty_world) \<and>
           str_includes text msg_nome_min) \<and>
   get_prop ana (js ''nome'') = JStr (js ''Ana Silva'') \<and> 3 \<le> length (js ''Ana Silva'') \<and>
   zstring_parse sample_lib nome_schema (get_prop ana (js ''nome'')) = []"
  using nome_min_length [OF short_nome_props(1), of sample_lib calm empty_world]
    nome_min_length [OF ana_props(1), of sample_lib calm empty_world]
    short_nome_props(1) ana_props(1) length_Al ana_valid(1)
  by simp

subsection \<open>C6: the listing\<close>

text \<open>
  C6: the handler of \<open>GET /contatos\<close> ends in one of two ways, decided by the persistence
  query. When the query is fulfilled, its result is the whole store and the handler
  renders the view \<open>contatos\<close> with that result bound to the variable \<open>contatos\<close>, the
  world unchanged. When the query is rejected, the handler prints the label
  \<open>Erro ao buscar contatos:\<close> and the error to \<open>console.error\<close> and answers with status 500
  and the text \<open>Erro ao buscar contatos.\<close>
\<close>

theorem get_contatos_outcomes:
  "(case Contato_findAll (db_err E) (contatos w) of
      Fulfilled cs \<Rightarrow>
        cs = contatos w \<and>
        get_contatos E w = (Replied (Render (js ''contatos'') [(js ''contatos'', cs)]), w)
    | Rejected e \<Rightarrow>
        get_contatos E w =
          (Replied (Send 500 (js ''Erro ao buscar contatos.'')),
           w\<lparr>console_error := console_error w @ [(js ''Erro ao buscar contatos:'', e)]\<rparr>))"
  by (simp add: get_contatos_def Contato_findAll_def split: option.splits)

text \<open>A store with one record, first working, then refusing the connection.\<close>

theorem get_contatos_outcomes_witness:
  "get_contatos calm one_row =
     (Replied (Render (js ''contatos'') [(js ''contatos'', contatos one_row)]), one_row) \<and>
   get_contatos db_down one_row =
     (Replied (Send 500 (js ''Erro ao buscar contatos.'')),
      one_row\<lparr>console_error :=
        [(js ''Erro ao buscar contatos:'', Error (js ''connection refused''))]\<rparr>)"
  using get_contatos_outcomes [where E = calm and w = one_row]
    get_contatos_outcomes [where E = db_down and w = one_row]
  by (simp add: Contato_findAll_def calm_def db_down_def one_row_def empty_world_def)

subsection \<open>C7: a submission without telephone\<close>

text \<open>
  C7: for every submission body without the property \<open>telefone\<close>, the telephone rule
  raises one issue whose message is the default message of the library for a missing
  value, and the handler of \<open>POST /\<close> answers with status 400 and a body that includes
  that message. The rules of the name and of the e-mail, which declare a message of
  their own, answer a missing value with it instead.
\<close>

theorem telefone_absent_default_message:
  assumes "b (js ''telefone'') = None"
  shows "zstring_parse L telefone_schema (get_prop b (js ''telefone'')) =
           [defaultError L JUndefined] \<and>
         (\<exists>text. post_root L E b w = (Replied (Send 400 text), w) \<and>
                 str_includes text (defaultError L JUndefined)) \<and>
         zstring_parse L nome_schema JUndefined = [msg_nome_obrigatorio] \<and>
         zstring_parse L email_schema JUndefined = [msg_email_obrigatorio]"
proof -
  from assms have u: "get_prop b (js ''telefone'') = JUndefined"
    by (simp add: get_prop_def)
  then have "defaultError L JUndefined \<in> set (all_messages L b)"
    by (simp add: all_messages_def telefone_messages_def)
  then have "\<exists>text. post_root L E b w = (Replied (Send 400 text), w) \<and>
                 str_includes text (defaultError L JUndefined)"
    by (rule includes_message)
  with u show ?thesis
    by (simp add: telefone_schema_def nome_schema_def email_schema_def)
qed

lemma no_telefone_props:
  "get_prop no_telefone (js ''nome'') = JStr (js ''Ana Silva'')"
  "get_prop no_telefone (js ''email'') = JStr (js ''ana@example.com'')"
  "get_prop no_telefone (js ''telefone'') = JUndefined"
  by (simp_all add: no_telefone_def get_prop_def js_eq_iff)

lemma no_telefone_messages: "all_messages sample_lib no_telefone = [js ''Required'']"
  using ana_valid
  by (simp add: all_messages_def no_telefone_props nome_messages_def email_messages_def
      telefone_messages_def)
    (simp add: sample_lib_def)

text \<open>A submission with a valid name and e-mail and no telephone.\<close>

theorem telefone_absent_default_message_witness:
  "no_telefone (js ''telefone'') = None \<and>
   defaultError sample_lib JUndefined = js ''Required'' \<and>
   zstring_parse sample_lib telefone_schema (get_prop no_telefone (js ''telefone'')) =
     [js ''Required''] \<and>
   post_root sample_lib calm no_telefone empty_world =
     (Replied (Send 400 (js ''Required'')), empty_world)"
proof -
  have h: "no_telefone (js ''telefone'') = None"
    by (simp add: no_telefone_def js_eq_iff)
  have d: "defaultError sample_lib JUndefined = js ''Required''"
    by (simp add: sample_lib_def)
  have "post_root sample_lib calm no_telefone empty_world =
      (Replied (Send 400 (js ''Required'')), empty_world)"
    by (simp add: post_root_Failure no_telefone_messages)
  with telefone_absent_default_message
      [where b = no_telefone and L = sample_lib and E = calm and w = empty_world] h d
  show ?thesis by simp
qed

subsection \<open>C8: persistence fails at submission\<close>

text \<open>
  C8: for every submission body that passes validation, if the call of
  \<open>Contato.create\<close> is rejected with an error, the handler of \<open>POST /\<close> ends with that
  error uncaught, the world unchanged; it sends no response, of status 200, 400 or any
  other.
\<close>

theorem post_root_create_rejected:
  assumes "safeParse L contatoSchema b = Success"
    and "Contato_create (db_err E)
           \<lparr>nome = get_prop b (js ''nome''), telefone = get_prop b (js ''telefone''),
            email = get_prop b (js ''email'')\<rparr> (contatos w) = Rejected e"
  shows "post_root L E b w = (Unhandled e, w) \<and>
         (\<forall>st text. fst (post_root L E b w) \<noteq> Replied (Send st text))"
  using assms by (simp add: post_root_def)

text \<open>The submission of Ana Silva while the store refuses the connection.\<close>

theorem post_root_create_rejected_witness:
  "safeParse sample_lib contatoSchema ana = Success \<and>
   Contato_create (db_err db_down)
     \<lparr>nome = get_prop ana (js ''nome''), telefone = get_prop ana (js ''telefone''),
      email = get_prop ana (js ''email'')\<rparr> (contatos one_row) =
     Rejected (Error (js ''connection refused'')) \<and>
   post_root sample_lib db_down ana one_row =
     (Unhandled (Error (js ''connection refused'')), one_row)"
proof -
  have h1: "safeParse sample_lib contatoSchema ana = Success"
    by (simp add: safeParse_Success ana_messages)
  have h2: "Contato_create (db_err db_down)
     \<lparr>nome = get_prop ana (js ''nome''), telefone = get_prop ana (js ''telefone''),
      email = get_prop ana (js ''email'')\<rparr> (contatos one_row) =
     Rejected (Error (js ''connection refused''))"
    by (simp add: Contato_create_def db_down_def)
  from post_root_create_rejected [OF h1 h2] h1 h2 show ?thesis by simp
qed

subsection \<open>C9: the access log\<close>





















subsection \<open>C10: properties outside the schema\<close>

text \<open>
  C10: for any two submission bodies that agree on the values of \<open>nome\<close>, \<open>email\<close> and
  \<open>telefone\<close>, the handler of \<open>POST /\<close>, run in the same world, ends the same way: the
  same status, the same body and the same world afterwards, so the same record
  persisted. Properties outside the schema decide nothing and are never persisted.
\<close>

theorem post_root_agreeing_bodies:
  assumes "get_prop b1 (js ''nome'') = get_prop b2 (js ''nome'')"
    and "get_prop b1 (js ''email'') = get_prop b2 (js ''email'')"
    and "get_prop b1 (js ''telefone'') = get_prop b2 (js ''telefone'')"
  shows "post_root L E b1 w = post_root L E b2 w"
proof -
  from assms have m: "all_messages L b1 = all_messages L b2"
    by (simp add: all_messages_def)
  show ?thesis
  proof (cases "all_messages L b1 = []")
    case True
    with m have "all_messages L b2 = []" by simp
    with True assms show ?thesis by (simp add: post_root_Success split: option.splits)
  next
    case False
    with m have "all_messages L b2 \<noteq> []" by simp
    with False m show ?thesis by (simp add: post_root_Failure)
  qed
qed

lemma with_extra_props:
  "get_prop with_extra (js ''nome'') = JStr (js ''Ana Silva'')"
  "get_prop with_extra (js ''email'') = JStr (js ''ana@example.com'')"
  "get_prop with_extra (js ''telefone'') = JStr (js ''(11) 91234-5678'')"
  "get_prop with_extra (js ''admin'') = JBool True"
  by (simp_all add: with_extra_def ana_def get_prop_def js_eq_iff)

text \<open>The submission of Ana Silva with and without an extra property \<open>admin\<close>.\<close>

theorem post_root_agreeing_bodies_witness:
  "get_prop with_extra (js ''nome'') = get_prop ana (js ''nome'') \<and>
   get_prop with_extra (js ''email'') = get_prop ana (js ''email'') \<and>
   get_prop with_extra (js ''telefone'') = get_prop ana (js ''telefone'') \<and>
   get_prop with_extra (js ''admin'') \<noteq> get_prop ana (js ''admin'') \<and>
   post_root sample_lib calm with_extra empty_world =
     post_root sample_lib calm ana empty_world \<and>
   contatos (snd (post_root sample_lib calm with_extra empty_world)) =
     [\<lparr>nome = JStr (js ''Ana Silva''), telefone = JStr (js ''(11) 91234-5678''),
       email = JStr (js ''ana@example.com'')\<rparr>]"
proof -
  have h: "get_prop with_extra (js ''nome'') = get_prop ana (js ''nome'')"
    "get_prop with_extra (js ''email'') = get_prop ana (js ''email'')"
    "get_prop with_extra (js ''telefone'') = get_prop ana (js ''telefone'')"
    by (simp_all add: with_extra_props ana_props)
  have x: "get_prop with_extra (js ''admin'') \<noteq> get_prop ana (js ''admin'')"
    by (simp add: with_extra_props) (simp add: ana_def get_prop_def js_eq_iff)
  have r: "contatos (snd (post_root sample_lib calm ana empty_world)) =
     [\<lparr>nome = JStr (js ''Ana Silva''), telefone = JStr (js ''(11) 91234-5678''),
       email = JStr (js ''ana@example.com'')\<rparr>]"
    by (simp add: post_root_Success ana_messages ana_props calm_def empty_world_def)
  from post_root_agreeing_bodies [OF h, of sample_lib calm empty_world] h x r
  show ?thesis by simp
qed

end
